theory Spec2Isabelle
  imports Main
begin

section \<open>Tokens and the token store\<close>

text \<open>
  The language server works on the token array returned by the parser. Tokens are
  JavaScript objects: a token's \<open>scope\<close> and \<open>lambda\<close> fields hold references to other
  token objects, and the server compares them with \<open>===\<close>, that is by identity. The
  model therefore keeps an explicit store from references to token objects; a token
  array is a list of references.

\<close>

type_synonym ref = nat

text \<open>Modelled from the spec: the declarations of \<open>Token\<close>, \<open>TokenKind\<close>,
  \<open>IdentifierKind\<close>, \<open>SyntaxError\<close> and of the token types (parser module
  \<open>server/src/parser\<close>, source missing). The fields are those that \<open>qLangServer.ts\<close>,
  \<open>util/index.ts\<close> and \<open>linter/checks.ts\<close> read, with the types their uses show; a field
  that may be absent is an option. The enum members are those the three files name
  (\<open>Identifier\<close>, \<open>DateTimeLiteral\<close>, \<open>Assignment\<close>, \<open>Argument\<close>, \<open>Unassignable\<close>,
  \<open>InvalidEscape\<close>) and those of the specification's data model (the Reference role, the
  Local and Global identifier kinds); every other token type or syntax error is an
  \<open>Other\<close> member. The field \<open>image\<close> is named \<open>imageT\<close> here.\<close>

datatype TokenType = Identifier | DateTimeLiteral | OtherTokenType nat

datatype TokenKind = Assignment | Reference

datatype IdentifierKind = Argument | Local | Global | Unassignable

datatype SyntaxError = InvalidEscape | OtherSyntaxError nat

record Token =
  imageT :: string
  startLine :: "int option"
  startColumn :: "int option"
  endLine :: "int option"
  endColumn :: "int option"
  tokenType :: TokenType
  kind :: "TokenKind option"
  "identifier" :: "string option"
  identifierKind :: "IdentifierKind option"
  scope :: "ref option"
  lambda :: "ref option"
  nullary :: "bool option"
  namespace :: "string option"
  error :: "SyntaxError option"

type_synonym store = "ref \<Rightarrow> Token"

section \<open>Protocol values\<close>

text \<open>
  The records of the language server protocol that the handlers build. \<open>Range.create\<close>,
  \<open>Location.create\<close>, \<open>TextEdit.replace\<close> and \<open>DocumentSymbol.create\<close> belong to the
  protocol library and are taken as plain constructors.
\<close>

record Position =
  line :: int
  character :: int

record Range =
  start :: Position
  end' :: Position

datatype FindKind = Reference | Definition | Rename | Completion

datatype SymbolKind = Function | Variable | Object | Array

datatype CompletionItemKind = Function | Variable

datatype DocumentSymbol =
  DocumentSymbol (ds_name: string) (ds_kind: SymbolKind) (ds_range: Range)
    (ds_selectionRange: Range) (ds_children: "DocumentSymbol list")

record Location =
  loc_uri :: string
  loc_range :: Range

record TextEdit =
  te_range :: Range
  te_newText :: string

record WorkspaceEdit =
  changes :: "(string \<times> TextEdit list) list"

record CompletionItem =
  ci_label :: string
  ci_kind :: CompletionItemKind

definition Range_create :: "int \<Rightarrow> int \<Rightarrow> int \<Rightarrow> int \<Rightarrow> Range" where
  "Range_create l1 c1 l2 c2 =
     \<lparr>start = \<lparr>line = l1, character = c1\<rparr>, end' = \<lparr>line = l2, character = c2\<rparr>\<rparr>"

section \<open>JavaScript operators used by the server\<close>

text \<open>\<open>n || d\<close> on an optional number: \<open>undefined\<close> and \<open>0\<close> are falsy.\<close>

definition num_or :: "int option \<Rightarrow> int \<Rightarrow> int" where
  "num_or n d = (case n of None \<Rightarrow> d | Some v \<Rightarrow> if v = 0 then d else v)"

text \<open>\<open>s || d\<close> on an optional string: \<open>undefined\<close> and the empty string are falsy.\<close>

definition str_or :: "string option \<Rightarrow> string \<Rightarrow> string" where
  "str_or s d = (case s of None \<Rightarrow> d | Some v \<Rightarrow> if v = [] then d else v)"

definition startsWith :: "string \<Rightarrow> string \<Rightarrow> bool" where
  "startsWith s p = (take (length p) s = p)"

text \<open>\<open>s.replace(pat, rep)\<close> with a string pattern: the first occurrence only.\<close>

fun replace :: "string \<Rightarrow> string \<Rightarrow> string \<Rightarrow> string" where
  "replace [] pat rep = (if pat = [] then rep else [])"
| "replace (c # cs) pat rep =
     (if startsWith (c # cs) pat then rep @ drop (length pat) (c # cs)
      else c # replace cs pat rep)"

section \<open>The private helpers of qLangServer.ts\<close>

definition rangeFromToken :: "Token \<Rightarrow> Range" where
  "rangeFromToken token =
     Range_create (num_or (startLine token) 1 - 1) (num_or (startColumn token) 1 - 1)
       (num_or (endLine token) 1 - 1) (num_or (endColumn token) 1)"

definition isLocal :: "store \<Rightarrow> ref list \<Rightarrow> ref \<Rightarrow> bool" where
  "isLocal h tokens target =
     (case scope (h target) of
        None \<Rightarrow> False
      | Some s \<Rightarrow>
          if nullary (h s) = Some True \<and>
             (identifier (h target) = Some ''x'' \<or> identifier (h target) = Some ''y'' \<or>
              identifier (h target) = Some ''z'')
          then True
          else find (\<lambda>token. kind (h token) = Some Assignment \<and>
                              scope (h token) = scope (h target) \<and>
                              identifier (h token) = identifier (h target)) tokens \<noteq> None)"

text \<open>The test that both copies of \<open>positionToToken\<close> apply to a token's range.\<close>

definition contains_position :: "Range \<Rightarrow> Position \<Rightarrow> bool" where
  "contains_position r position =
     (line (start r) \<le> line position \<and> line (end' r) \<ge> line position \<and>
      character (start r) \<le> character position \<and>
      character (end' r) \<ge> character position)"

definition positionToToken :: "store \<Rightarrow> ref list \<Rightarrow> Position \<Rightarrow> ref option" where
  "positionToToken h tokens position =
     find (\<lambda>token. contains_position (rangeFromToken (h token)) position) tokens"

definition getLabel :: "store \<Rightarrow> ref \<Rightarrow> ref option \<Rightarrow> string" where
  "getLabel h token source =
     (let label = str_or (identifier (h token)) (imageT (h token)) in
      case source of
        None \<Rightarrow> label
      | Some s \<Rightarrow>
          (case namespace (h s) of
             None \<Rightarrow> label
           | Some ns \<Rightarrow>
               if ns \<noteq> [] \<and> startsWith label ns then replace label (ns @ ''.'') []
               else label))"

section \<open>The exported copies in util/index.ts\<close>

definition util_rangeFromToken :: "Token \<Rightarrow> Range" where
  "util_rangeFromToken token =
     Range_create (num_or (startLine token) 1 - 1) (num_or (startColumn token) 1 - 1)
       (num_or (endLine token) 1 - 1) (num_or (endColumn token) 1)"

definition util_isLocal :: "store \<Rightarrow> ref list \<Rightarrow> ref \<Rightarrow> bool" where
  "util_isLocal h tokens target =
     (case scope (h target) of
        None \<Rightarrow> False
      | Some s \<Rightarrow>
          if nullary (h s) = Some True \<and>
             (identifier (h target) = Some ''x'' \<or> identifier (h target) = Some ''y'' \<or>
              identifier (h target) = Some ''z'')
          then True
          else find (\<lambda>token. kind (h token) = Some Assignment \<and>
                              scope (h token) = scope (h target) \<and>
                              identifier (h token) = identifier (h target)) tokens \<noteq> None)"

definition util_positionToToken :: "store \<Rightarrow> ref list \<Rightarrow> Position \<Rightarrow> ref option" where
  "util_positionToToken h tokens position =
     find (\<lambda>token. contains_position (util_rangeFromToken (h token)) position) tokens"

definition util_getLabel :: "store \<Rightarrow> ref \<Rightarrow> ref option \<Rightarrow> string" where
  "util_getLabel h token source =
     (let label = str_or (identifier (h token)) (imageT (h token)) in
      case source of
        None \<Rightarrow> label
      | Some s \<Rightarrow>
          (case namespace (h s) of
             None \<Rightarrow> label
           | Some ns \<Rightarrow>
               if ns \<noteq> [] \<and> startsWith label ns then replace label (ns @ ''.'') []
               else label))"

section \<open>The query handlers of QLangServer\<close>

text \<open>
  Every handler starts from \<open>this.parse(textDocument)\<close>, the token array of the current
  document text (empty when the document is unknown). The handlers below take that
  array, with its store, as their argument.
\<close>

definition completion_push :: "store \<Rightarrow> ref list \<Rightarrow> ref \<Rightarrow> ref list" where
  "completion_push h completions token =
     (if find (\<lambda>item. identifier (h item) = identifier (h token)) completions = None
      then completions @ [token] else completions)"

definition findIdentifiers :: "store \<Rightarrow> FindKind \<Rightarrow> ref list \<Rightarrow> ref option \<Rightarrow> ref list" where
  "findIdentifiers h k tokens source =
     (case source of
        None \<Rightarrow> []
      | Some src \<Rightarrow>
          if identifierKind (h src) = Some Unassignable then []
          else
            (case k of
               Rename \<Rightarrow>
                 if isLocal h tokens src
                 then filter (\<lambda>token. tokenType (h token) = Identifier \<and>
                                identifierKind (h token) \<noteq> Some Unassignable \<and>
                                identifier (h token) = identifier (h src) \<and>
                                scope (h token) = scope (h src)) tokens
                 else filter (\<lambda>token. tokenType (h token) = Identifier \<and>
                                identifierKind (h token) \<noteq> Some Unassignable \<and>
                                identifier (h token) = identifier (h src) \<and>
                                \<not> isLocal h tokens token) tokens
             | FindKind.Reference \<Rightarrow>
                 if isLocal h tokens src
                 then filter (\<lambda>token. tokenType (h token) = Identifier \<and>
                                identifierKind (h token) \<noteq> Some Unassignable \<and>
                                identifier (h token) = identifier (h src) \<and>
                                scope (h token) = scope (h src)) tokens
                 else filter (\<lambda>token. tokenType (h token) = Identifier \<and>
                                identifierKind (h token) \<noteq> Some Unassignable \<and>
                                identifier (h token) = identifier (h src) \<and>
                                \<not> isLocal h tokens token) tokens
             | Definition \<Rightarrow>
                 if isLocal h tokens src
                 then filter (\<lambda>token. kind (h token) = Some Assignment \<and>
                                identifierKind (h token) \<noteq> Some Unassignable \<and>
                                identifier (h token) = identifier (h src) \<and>
                                scope (h token) = scope (h src)) tokens
                 else filter (\<lambda>token. kind (h token) = Some Assignment \<and>
                                identifierKind (h token) \<noteq> Some Unassignable \<and>
                                identifier (h token) = identifier (h src) \<and>
                                \<not> isLocal h tokens token) tokens
             | Completion \<Rightarrow>
                 foldl (completion_push h) []
                   (filter (\<lambda>token. kind (h token) = Some Assignment \<and>
                              identifierKind (h token) \<noteq> Some Unassignable \<and>
                              ((case identifier (h token) of
                                  None \<Rightarrow> False
                                | Some i \<Rightarrow> startsWith i ''.'') \<or>
                               namespace (h token) = namespace (h src)) \<and>
                              (scope (h token) = None \<or> scope (h token) = scope (h src)))
                      tokens)))"

definition onDocumentSymbol :: "store \<Rightarrow> ref list \<Rightarrow> DocumentSymbol list" where
  "onDocumentSymbol h tokens =
     map (\<lambda>token.
            DocumentSymbol (getLabel h token None)
              (if lambda (h token) \<noteq> None then SymbolKind.Object else SymbolKind.Variable)
              (rangeFromToken (h token)) (rangeFromToken (h token))
              (map (\<lambda>token.
                      DocumentSymbol (imageT (h token))
                        (if identifierKind (h token) = Some Argument then SymbolKind.Array
                         else SymbolKind.Variable)
                        (rangeFromToken (h token)) (rangeFromToken (h token)) [])
                 (filter (\<lambda>child. scope (h child) \<noteq> None \<and>
                            scope (h child) = lambda (h token) \<and>
                            kind (h child) = Some Assignment) tokens)))
       (filter (\<lambda>token. kind (h token) = Some Assignment \<and> scope (h token) = None) tokens)"

definition onReferences :: "store \<Rightarrow> ref list \<Rightarrow> string \<Rightarrow> Position \<Rightarrow> Location list" where
  "onReferences h tokens uri position =
     (let source = positionToToken h tokens position in
      map (\<lambda>token. \<lparr>loc_uri = uri, loc_range = rangeFromToken (h token)\<rparr>)
        (findIdentifiers h FindKind.Reference tokens source))"

definition onDefinition :: "store \<Rightarrow> ref list \<Rightarrow> string \<Rightarrow> Position \<Rightarrow> Location list" where
  "onDefinition h tokens uri position =
     (let source = positionToToken h tokens position in
      map (\<lambda>token. \<lparr>loc_uri = uri, loc_range = rangeFromToken (h token)\<rparr>)
        (findIdentifiers h Definition tokens source))"

definition onRenameRequest ::
  "store \<Rightarrow> ref list \<Rightarrow> string \<Rightarrow> Position \<Rightarrow> string \<Rightarrow> WorkspaceEdit option" where
  "onRenameRequest h tokens uri position newName =
     (let source = positionToToken h tokens position;
          edits = map (\<lambda>token. \<lparr>te_range = rangeFromToken (h token), te_newText = newName\<rparr>)
                    (findIdentifiers h Rename tokens source)
      in if length edits = 0 then None else Some \<lparr>changes = [(uri, edits)]\<rparr>)"

definition onCompletion :: "store \<Rightarrow> ref list \<Rightarrow> Position \<Rightarrow> CompletionItem list" where
  "onCompletion h tokens position =
     (let source = positionToToken h tokens position in
      map (\<lambda>token. \<lparr>ci_label = getLabel h token source,
                     ci_kind = (if lambda (h token) \<noteq> None then CompletionItemKind.Function
                                else CompletionItemKind.Variable)\<rparr>)
        (findIdentifiers h Completion tokens source))"

text \<open>
  De-duplication by identifier that keeps the first occurrence, written as a
  specification to compare the completion loop of \<open>findIdentifiers\<close> with.
\<close>

fun keep_first :: "store \<Rightarrow> ref list \<Rightarrow> ref list" where
  "keep_first h [] = []"
| "keep_first h (t # ts) =
     t # keep_first h (filter (\<lambda>u. identifier (h u) \<noteq> identifier (h t)) ts)"

section \<open>Example documents\<close>

text \<open>Token builders for the examples: an identifier occurrence at a line and column,
  and a token of another type (a bracket, a literal, a keyword).\<close>

definition blank :: Token where
  "blank = \<lparr>imageT = [], startLine = None, startColumn = None, endLine = None,
     endColumn = None, tokenType = OtherTokenType 0, kind = None, identifier = None,
     identifierKind = None, scope = None, lambda = None, nullary = None,
     namespace = None, error = None\<rparr>"

definition ident :: "string \<Rightarrow> int \<Rightarrow> int \<Rightarrow> Token" where
  "ident name l c = blank\<lparr>imageT := name, startLine := Some l, startColumn := Some c,
     endLine := Some l, endColumn := Some (c + int (length name) - 1),
     tokenType := Identifier, kind := Some TokenKind.Reference, identifier := Some name,
     identifierKind := Some Global\<rparr>"

definition other :: "nat \<Rightarrow> string \<Rightarrow> int \<Rightarrow> int \<Rightarrow> Token" where
  "other ty img l c = blank\<lparr>imageT := img, startLine := Some l, startColumn := Some c,
     endLine := Some l, endColumn := Some (c + int (length img) - 1),
     tokenType := OtherTokenType ty\<rparr>"

text \<open>The document \<open>f:{a:1;a};a\<close>: a global function \<open>f\<close> whose lambda binds a local \<open>a\<close>
  and reads it, followed by a read of a global \<open>a\<close>. Token 1 is the opening brace.\<close>

definition doc_f :: store where
  "doc_f r =
     (if r = 0 then (ident ''f'' 1 1)\<lparr>kind := Some Assignment, lambda := Some 1\<rparr>
      else if r = 1 then (other 1 ''{'' 1 3)\<lparr>nullary := Some True\<rparr>
      else if r = 2 then (ident ''a'' 1 4)\<lparr>kind := Some Assignment,
             identifierKind := Some Local, scope := Some 1\<rparr>
      else if r = 3 then (ident ''a'' 1 8)\<lparr>identifierKind := Some Local, scope := Some 1\<rparr>
      else if r = 4 then ident ''a'' 1 11
      else blank)"

definition doc_f_tokens :: "ref list" where
  "doc_f_tokens = [0, 1, 2, 3, 4]"

text \<open>Two tokens of a document level that carry the identifier \<open>a\<close>: an identifier
  occurrence, and a token that cannot be assigned to.\<close>

definition doc_u :: store where
  "doc_u r =
     (if r = 0 then ident ''a'' 1 1
      else if r = 1 then (other 2 ''a'' 1 3)\<lparr>identifier := Some ''a'',
             identifierKind := Some Unassignable\<rparr>
      else blank)"

text \<open>The document \<open>a:1;til\<close>: a global assignment and the keyword \<open>til\<close>.\<close>

definition doc_k :: store where
  "doc_k r =
     (if r = 0 then (ident ''a'' 1 1)\<lparr>kind := Some Assignment\<rparr>
      else if r = 1 then (other 3 ''1'' 1 3)\<lparr>identifierKind := Some Unassignable\<rparr>
      else if r = 2 then (other 4 ''til'' 1 5)\<lparr>identifier := Some ''til'',
             identifierKind := Some Unassignable\<rparr>
      else blank)"

section \<open>Position mapping\<close>

text \<open>
  Claim C3. For a token whose four span fields are present and 1-based, the range of
  \<open>rangeFromToken\<close> starts at (startLine - 1, startColumn - 1) and ends at
  (endLine - 1, endColumn): the end column is the only coordinate left as it is.
\<close>

theorem rangeFromToken_one_based:
  assumes "startLine token = Some sl" and "startColumn token = Some sc"
    and "endLine token = Some el" and "endColumn token = Some ec"
    and "1 \<le> sl" and "1 \<le> sc" and "1 \<le> el" and "1 \<le> ec"
  shows "rangeFromToken token =
    \<lparr>start = \<lparr>line = sl - 1, character = sc - 1\<rparr>,
     end' = \<lparr>line = el - 1, character = ec\<rparr>\<rparr>"
  using assms by (simp add: rangeFromToken_def Range_create_def num_or_def)

theorem rangeFromToken_one_based_witness:
  "rangeFromToken (ident ''abc'' 3 5) =
    \<lparr>start = \<lparr>line = 2, character = 4\<rparr>, end' = \<lparr>line = 2, character = 7\<rparr>\<rparr>"
  using rangeFromToken_one_based [of "ident ''abc'' 3 5" 3 5 3 7]
  by (simp add: ident_def blank_def)

section \<open>Locality\<close>

text \<open>
  Claim C2. \<open>isLocal\<close> holds exactly when the target has a scope and either the target
  is named \<open>x\<close>, \<open>y\<close> or \<open>z\<close> and that scope is a nullary lambda, or some token of the
  sequence is an Assignment with the very same scope reference and the same identifier.
\<close>

theorem isLocal_iff:
  "isLocal h tokens target \<longleftrightarrow>
     (scope (h target) \<noteq> None \<and>
      (((identifier (h target) = Some ''x'' \<or> identifier (h target) = Some ''y'' \<or>
         identifier (h target) = Some ''z'') \<and>
        (\<exists>s. scope (h target) = Some s \<and> nullary (h s) = Some True)) \<or>
       (\<exists>token \<in> set tokens. kind (h token) = Some Assignment \<and>
          scope (h token) = scope (h target) \<and>
          identifier (h token) = identifier (h target))))"
  by (auto simp add: isLocal_def find_None_iff split: option.splits)

section \<open>The two copies of the helpers\<close>

text \<open>
  Claim C10. The private helpers \<open>rangeFromToken\<close>, \<open>isLocal\<close>, \<open>positionToToken\<close> and
  \<open>getLabel\<close> of \<open>qLangServer.ts\<close> are, as functions, equal to the exported functions of
  the same names in \<open>util/index.ts\<close>.
\<close>

theorem copies_agree:
  "rangeFromToken = util_rangeFromToken \<and> isLocal = util_isLocal \<and>
   positionToToken = util_positionToToken \<and> getLabel = util_getLabel"
proof (intro conjI)
  show r: "rangeFromToken = util_rangeFromToken"
    by (rule ext) (simp add: rangeFromToken_def util_rangeFromToken_def)
  show "isLocal = util_isLocal"
    by (intro ext) (simp add: isLocal_def util_isLocal_def)
  show "positionToToken = util_positionToToken"
    by (intro ext) (simp add: positionToToken_def util_positionToToken_def r)
  show "getLabel = util_getLabel"
    by (intro ext) (simp add: getLabel_def util_getLabel_def)
qed

section \<open>Reference, Definition and Rename\<close>

text \<open>
  Claim C1, as the code has it. For a source token that is not Unassignable, Reference
  and Rename return, in sequence order, the tokens of type Identifier that are not
  Unassignable and carry the source's identifier, and that share the source's scope
  reference when the source is local, or are themselves not local when it is not.
  Definition returns the tokens in Assignment role that are not Unassignable under the
  same identifier and scope condition; it does not look at the token type.
\<close>

theorem findIdentifiers_candidates:
  assumes "identifierKind (h src) \<noteq> Some Unassignable"
  shows "findIdentifiers h FindKind.Reference tokens (Some src) =
           filter (\<lambda>t. tokenType (h t) = Identifier \<and>
                        identifierKind (h t) \<noteq> Some Unassignable \<and>
                        identifier (h t) = identifier (h src) \<and>
                        (if isLocal h tokens src then scope (h t) = scope (h src)
                         else \<not> isLocal h tokens t)) tokens \<and>
         findIdentifiers h Rename tokens (Some src) =
           findIdentifiers h FindKind.Reference tokens (Some src) \<and>
         findIdentifiers h Definition tokens (Some src) =
           filter (\<lambda>t. kind (h t) = Some Assignment \<and>
                        identifierKind (h t) \<noteq> Some Unassignable \<and>
                        identifier (h t) = identifier (h src) \<and>
                        (if isLocal h tokens src then scope (h t) = scope (h src)
                         else \<not> isLocal h tokens t)) tokens"
  using assms by (simp add: findIdentifiers_def)

theorem findIdentifiers_candidates_witness:
  "findIdentifiers doc_f FindKind.Reference doc_f_tokens (Some 3) = [2, 3] \<and>
   findIdentifiers doc_f Rename doc_f_tokens (Some 3) = [2, 3] \<and>
   findIdentifiers doc_f Definition doc_f_tokens (Some 3) = [2] \<and>
   findIdentifiers doc_f FindKind.Reference doc_f_tokens (Some 4) = [4]"
  using findIdentifiers_candidates [of doc_f 3 doc_f_tokens]
    findIdentifiers_candidates [of doc_f 4 doc_f_tokens]
  by (simp add: doc_f_def doc_f_tokens_def ident_def other_def blank_def isLocal_def)

text \<open>
  Claim C1 as stated does not hold: in \<open>doc_u\<close> token 1 carries the source's identifier
  and is not local, yet Reference on token 0 returns token 0 alone, because token 1 is
  Unassignable and not of type Identifier.
\<close>

theorem findIdentifiers_skips_unassignable_namesake:
  "findIdentifiers doc_u FindKind.Reference [0, 1] (Some 0) = [0] \<and>
   identifierKind (doc_u 0) \<noteq> Some Unassignable \<and>
   \<not> isLocal doc_u [0, 1] 0 \<and>
   identifier (doc_u 1) = identifier (doc_u 0) \<and>
   \<not> isLocal doc_u [0, 1] 1"
  by (simp add: doc_u_def ident_def other_def blank_def findIdentifiers_def isLocal_def)

section \<open>Completion\<close>

text \<open>The completion loop keeps the first token of each identifier.\<close>

lemma set_foldl_completion_push:
  "set (foldl (completion_push h) acc xs) \<subseteq> set acc \<union> set xs"
proof (induction xs arbitrary: acc)
  case Nil
  then show ?case by simp
next
  case (Cons x xs)
  have "set (completion_push h acc x) \<subseteq> set acc \<union> {x}"
    by (auto simp add: completion_push_def)
  with Cons.IH [of "completion_push h acc x"] show ?case by auto
qed

lemma foldl_completion_push:
  "foldl (completion_push h) acc xs =
     acc @ keep_first h (filter (\<lambda>u. \<forall>a \<in> set acc. identifier (h u) \<noteq> identifier (h a)) xs)"
proof (induction xs arbitrary: acc)
  case Nil
  then show ?case by simp
next
  case (Cons x xs)
  show ?case
  proof (cases "\<forall>a \<in> set acc. identifier (h x) \<noteq> identifier (h a)")
    case True
    then have push: "completion_push h acc x = acc @ [x]"
      by (auto simp add: completion_push_def find_None_iff)
    have "filter (\<lambda>u. \<forall>a \<in> set (acc @ [x]). identifier (h u) \<noteq> identifier (h a)) xs =
          filter (\<lambda>u. identifier (h u) \<noteq> identifier (h x))
            (filter (\<lambda>u. \<forall>a \<in> set acc. identifier (h u) \<noteq> identifier (h a)) xs)"
      by (auto intro: filter_cong)
    with True push Cons.IH [of "acc @ [x]"] show ?thesis by simp
  next
    case False
    then have push: "completion_push h acc x = acc"
      by (auto simp add: completion_push_def find_None_iff)
    from False have
      "filter (\<lambda>u. \<forall>a \<in> set acc. identifier (h u) \<noteq> identifier (h a)) (x # xs) =
       filter (\<lambda>u. \<forall>a \<in> set acc. identifier (h u) \<noteq> identifier (h a)) xs"
      by simp
    with push Cons.IH [of acc] show ?thesis by simp
  qed
qed

lemma keep_first_subset: "set (keep_first h xs) \<subseteq> set xs"
  by (induction h xs rule: keep_first.induct) auto

lemma keep_first_identifiers:
  "(\<lambda>t. identifier (h t)) ` set (keep_first h xs) = (\<lambda>t. identifier (h t)) ` set xs"
proof (induction h xs rule: keep_first.induct)
  case (1 h)
  then show ?case by simp
next
  case (2 h t ts)
  then show ?case by (auto simp add: image_iff) 
qed

lemma keep_first_distinct: "distinct (map (\<lambda>t. identifier (h t)) (keep_first h xs))"
proof (induction h xs rule: keep_first.induct)
  case (1 h)
  then show ?case by simp
next
  case (2 h t ts)
  have "identifier (h t) \<notin> (\<lambda>t. identifier (h t)) ` set (keep_first h (filter (\<lambda>u. identifier (h u) \<noteq> identifier (h t)) ts))"
    using keep_first_subset [of h "filter (\<lambda>u. identifier (h u) \<noteq> identifier (h t)) ts"] by auto
  with 2 show ?case by simp
qed

text \<open>\<open>keep_first\<close> keeps a token exactly when no token before it in the list has its
  identifier.\<close>

lemma filter_eq_append_ConsD:
  "filter P xs = ys @ t # zs \<Longrightarrow>
     \<exists>ys' zs'. xs = ys' @ t # zs' \<and> filter P ys' = ys \<and> P t"
proof (induction ys arbitrary: xs)
  case Nil
  then obtain us vs where "xs = us @ t # vs" and "\<forall>u \<in> set us. \<not> P u" and "P t"
    by (auto dest: filter_eq_ConsD)
  then have "xs = us @ t # vs \<and> filter P us = [] \<and> P t" by simp
  then show ?case by blast
next
  case (Cons y ys)
  then obtain us vs where xs: "xs = us @ y # vs" and us: "\<forall>u \<in> set us. \<not> P u"
    and y: "P y" and vs: "filter P vs = ys @ t # zs"
    by (auto dest: filter_eq_ConsD)
  from Cons.IH [OF vs] obtain ys' zs' where "vs = ys' @ t # zs'" "filter P ys' = ys" "P t"
    by blast
  with xs us y have "xs = (us @ y # ys') @ t # zs' \<and> filter P (us @ y # ys') = y # ys \<and> P t"
    by simp
  then show ?case by blast
qed

lemma keep_first_first_occurrence:
  "t \<in> set (keep_first h xs) \<longleftrightarrow>
     (\<exists>ys zs. xs = ys @ t # zs \<and> (\<forall>u \<in> set ys. identifier (h u) \<noteq> identifier (h t)))"
proof (induction h xs arbitrary: t rule: keep_first.induct)
  case (1 h)
  then show ?case by simp
next
  case (2 h x xs)
  let ?P = "\<lambda>u. identifier (h u) \<noteq> identifier (h x)"
  show ?case
  proof
    assume "t \<in> set (keep_first h (x # xs))"
    then consider "t = x" | "t \<in> set (keep_first h (filter ?P xs))" by auto
    then show "\<exists>ys zs. x # xs = ys @ t # zs \<and>
                 (\<forall>u \<in> set ys. identifier (h u) \<noteq> identifier (h t))"
    proof cases
      case 1
      then have "x # xs = [] @ t # xs \<and>
                 (\<forall>u \<in> set []. identifier (h u) \<noteq> identifier (h t))" by simp
      then show ?thesis by (intro exI)
    next
      case 2
      with "2.IH" obtain ys zs where f: "filter ?P xs = ys @ t # zs"
        and ys: "\<forall>u \<in> set ys. identifier (h u) \<noteq> identifier (h t)" by blast
      from filter_eq_append_ConsD [OF f]
      obtain ys' zs' where xs: "xs = ys' @ t # zs'" and ys': "filter ?P ys' = ys"
        and t: "?P t"
        by blast
      have "\<forall>u \<in> set ys'. identifier (h u) \<noteq> identifier (h t)"
      proof
        fix u assume u: "u \<in> set ys'"
        show "identifier (h u) \<noteq> identifier (h t)"
        proof (cases "?P u")
          case True
          with u ys' have "u \<in> set ys" by auto
          with ys show ?thesis by blast
        next
          case False
          with t show ?thesis by simp
        qed
      qed
      with t have "\<forall>u \<in> set (x # ys'). identifier (h u) \<noteq> identifier (h t)" by auto
      moreover from xs have "x # xs = (x # ys') @ t # zs'" by simp
      ultimately show ?thesis by blast
    qed
  next
    assume "\<exists>ys zs. x # xs = ys @ t # zs \<and>
              (\<forall>u \<in> set ys. identifier (h u) \<noteq> identifier (h t))"
    then obtain ys zs where xs: "x # xs = ys @ t # zs"
      and ys: "\<forall>u \<in> set ys. identifier (h u) \<noteq> identifier (h t)" by blast
    show "t \<in> set (keep_first h (x # xs))"
    proof (cases ys)
      case Nil
      with xs show ?thesis by simp
    next
      case (Cons y ys')
      with xs have x: "y = x" and ts: "xs = ys' @ t # zs" by simp_all
      from ys Cons x have t: "?P t" by auto
      with ts have "filter ?P xs = filter ?P ys' @ t # filter ?P zs" by simp
      moreover from ys Cons
      have "\<forall>u \<in> set (filter ?P ys'). identifier (h u) \<noteq> identifier (h t)" by simp
      ultimately have "t \<in> set (keep_first h (filter ?P xs))"
        using "2.IH" by blast
      then show ?thesis by simp
    qed
  qed
qed

text \<open>
  Claim C5, as the code has it. For a cursor token that is not Unassignable, Completion
  returns the Assignment tokens that are not Unassignable, whose scope is absent or the
  cursor token's scope reference, and whose identifier starts with a dot or whose
  namespace equals the cursor token's, keeping the first token of each identifier; an
  item's kind is Function when its token opens a lambda and Variable otherwise.
\<close>

theorem completion_candidates:
  assumes "positionToToken h tokens p = Some src"
    and "identifierKind (h src) \<noteq> Some Unassignable"
  shows "findIdentifiers h Completion tokens (Some src) =
           keep_first h
             (filter (\<lambda>t. kind (h t) = Some Assignment \<and>
                          identifierKind (h t) \<noteq> Some Unassignable \<and>
                          (scope (h t) = None \<or> scope (h t) = scope (h src)) \<and>
                          ((\<exists>i. identifier (h t) = Some i \<and> startsWith i ''.'') \<or>
                           namespace (h t) = namespace (h src))) tokens) \<and>
         map ci_kind (onCompletion h tokens p) =
           map (\<lambda>t. if lambda (h t) = None then CompletionItemKind.Variable
                     else CompletionItemKind.Function)
             (findIdentifiers h Completion tokens (Some src))"
proof
  have "filter (\<lambda>token. kind (h token) = Some Assignment \<and>
                  identifierKind (h token) \<noteq> Some Unassignable \<and>
                  ((case identifier (h token) of None \<Rightarrow> False
                    | Some i \<Rightarrow> startsWith i ''.'') \<or>
                   namespace (h token) = namespace (h src)) \<and>
                  (scope (h token) = None \<or> scope (h token) = scope (h src))) tokens =
        filter (\<lambda>t. kind (h t) = Some Assignment \<and>
                  identifierKind (h t) \<noteq> Some Unassignable \<and>
                  (scope (h t) = None \<or> scope (h t) = scope (h src)) \<and>
                  ((\<exists>i. identifier (h t) = Some i \<and> startsWith i ''.'') \<or>
                   namespace (h t) = namespace (h src))) tokens"
    by (rule filter_cong) (auto split: option.splits)
  with assms(2) show "findIdentifiers h Completion tokens (Some src) =
           keep_first h
             (filter (\<lambda>t. kind (h t) = Some Assignment \<and>
                          identifierKind (h t) \<noteq> Some Unassignable \<and>
                          (scope (h t) = None \<or> scope (h t) = scope (h src)) \<and>
                          ((\<exists>i. identifier (h t) = Some i \<and> startsWith i ''.'') \<or>
                           namespace (h t) = namespace (h src))) tokens)"
    by (simp add: findIdentifiers_def foldl_completion_push)
next
  from assms(1) show "map ci_kind (onCompletion h tokens p) =
           map (\<lambda>t. if lambda (h t) = None then CompletionItemKind.Variable
                     else CompletionItemKind.Function)
             (findIdentifiers h Completion tokens (Some src))"
    by (simp add: onCompletion_def Let_def comp_def)
qed

theorem completion_candidates_witness:
  "findIdentifiers doc_f Completion doc_f_tokens (Some 3) = [0, 2] \<and>
   map ci_kind (onCompletion doc_f doc_f_tokens \<lparr>line = 0, character = 7\<rparr>) =
     [CompletionItemKind.Function, CompletionItemKind.Variable]"
  using completion_candidates [of doc_f doc_f_tokens "\<lparr>line = 0, character = 7\<rparr>" 3]
  by (simp add: doc_f_def doc_f_tokens_def ident_def other_def blank_def
      positionToToken_def rangeFromToken_def Range_create_def num_or_def
      contains_position_def startsWith_def)

text \<open>
  Claim C5 as stated does not hold for every resolved cursor token: in \<open>doc_k\<close> the
  cursor is on the keyword \<open>til\<close>, which is Unassignable, and Completion returns nothing
  although the assignment to \<open>a\<close> meets every condition of the claim.
\<close>

theorem completion_unassignable_cursor:
  "positionToToken doc_k [0, 1, 2] \<lparr>line = 0, character = 5\<rparr> = Some 2 \<and>
   findIdentifiers doc_k Completion [0, 1, 2] (Some 2) = [] \<and>
   onCompletion doc_k [0, 1, 2] \<lparr>line = 0, character = 5\<rparr> = [] \<and>
   kind (doc_k 0) = Some Assignment \<and>
   identifierKind (doc_k 0) \<noteq> Some Unassignable \<and>
   scope (doc_k 0) = None \<and>
   namespace (doc_k 0) = namespace (doc_k 2)"
  by (simp add: doc_k_def ident_def other_def blank_def
      positionToToken_def rangeFromToken_def Range_create_def num_or_def
      contains_position_def findIdentifiers_def onCompletion_def)

section \<open>Unassignable tokens and missing source tokens\<close>

text \<open>
  Claim C9. Whatever the query kind and the source token, no token of the result of
  \<open>findIdentifiers\<close> has identifier kind Unassignable.
\<close>

theorem results_exclude_unassignable:
  "\<forall>t \<in> set (findIdentifiers h k tokens source). identifierKind (h t) \<noteq> Some Unassignable"
proof (cases source)
  case None
  then show ?thesis by (simp add: findIdentifiers_def)
next
  case (Some src)
  show ?thesis
  proof (cases k)
    case Completion
    have "set (foldl (completion_push h) [] (filter P tokens)) \<subseteq> set (filter P tokens)"
      for P
      using set_foldl_completion_push [of h "[]" "filter P tokens"] by simp
    then have "t \<in> set (foldl (completion_push h) [] (filter P tokens)) \<Longrightarrow> P t" for P t
      by auto
    with Some Completion show ?thesis
      by (auto simp add: findIdentifiers_def)
  qed (use Some in \<open>auto simp add: findIdentifiers_def\<close>)
qed

theorem results_exclude_unassignable_witness:
  "findIdentifiers doc_k Completion [0, 1, 2] (Some 0) = [0] \<and>
   identifierKind (doc_k 0) \<noteq> Some Unassignable"
  using results_exclude_unassignable [of doc_k Completion "[0, 1, 2]" "Some 0"]
  by (simp add: doc_k_def ident_def other_def blank_def findIdentifiers_def
      completion_push_def)

text \<open>
  Claim C8. When no token's range contains the position, or the token found there is
  Unassignable, Reference, Definition and Completion return the empty list and Rename
  returns null; no handler has a failing branch.
\<close>

theorem no_source_empty_results:
  assumes "(\<forall>t \<in> set tokens. \<not> contains_position (rangeFromToken (h t)) p) \<or>
           (\<exists>s. positionToToken h tokens p = Some s \<and>
                 identifierKind (h s) = Some Unassignable)"
  shows "onReferences h tokens uri p = [] \<and> onDefinition h tokens uri p = [] \<and>
         onCompletion h tokens p = [] \<and> onRenameRequest h tokens uri p newName = None"
proof -
  have "findIdentifiers h k tokens (positionToToken h tokens p) = []" for k
    using assms
  proof
    assume "\<forall>t \<in> set tokens. \<not> contains_position (rangeFromToken (h t)) p"
    then have "positionToToken h tokens p = None"
      by (simp add: positionToToken_def find_None_iff)
    then show ?thesis by (simp add: findIdentifiers_def)
  next
    assume "\<exists>s. positionToToken h tokens p = Some s \<and>
                identifierKind (h s) = Some Unassignable"
    then show ?thesis by (auto simp add: findIdentifiers_def)
  qed
  then show ?thesis
    by (simp add: onReferences_def onDefinition_def onCompletion_def onRenameRequest_def)
qed

theorem no_source_empty_results_witness:
  "onReferences doc_k [0, 1, 2] ''doc'' \<lparr>line = 0, character = 5\<rparr> = [] \<and>
   onDefinition doc_k [0, 1, 2] ''doc'' \<lparr>line = 0, character = 5\<rparr> = [] \<and>
   onCompletion doc_k [0, 1, 2] \<lparr>line = 0, character = 5\<rparr> = [] \<and>
   onRenameRequest doc_k [0, 1, 2] ''doc'' \<lparr>line = 0, character = 5\<rparr> ''b'' = None \<and>
   onReferences doc_k [0, 1, 2] ''doc'' \<lparr>line = 4, character = 0\<rparr> = [] \<and>
   onDefinition doc_k [0, 1, 2] ''doc'' \<lparr>line = 4, character = 0\<rparr> = [] \<and>
   onCompletion doc_k [0, 1, 2] \<lparr>line = 4, character = 0\<rparr> = [] \<and>
   onRenameRequest doc_k [0, 1, 2] ''doc'' \<lparr>line = 4, character = 0\<rparr> ''b'' = None"
proof -
  have a: "\<exists>s. positionToToken doc_k [0, 1, 2] \<lparr>line = 0, character = 5\<rparr> = Some s \<and>
             identifierKind (doc_k s) = Some Unassignable"
    by (simp add: doc_k_def ident_def other_def blank_def positionToToken_def
        rangeFromToken_def Range_create_def num_or_def contains_position_def)
  have b: "\<forall>t \<in> set [0, 1, 2].
             \<not> contains_position (rangeFromToken (doc_k t)) \<lparr>line = 4, character = 0\<rparr>"
    by (simp add: doc_k_def ident_def other_def blank_def
        rangeFromToken_def Range_create_def num_or_def contains_position_def)
  from a b show ?thesis
    using no_source_empty_results [of "[0, 1, 2]" doc_k "\<lparr>line = 0, character = 5\<rparr>" "''doc''" "''b''"]
      no_source_empty_results [of "[0, 1, 2]" doc_k "\<lparr>line = 4, character = 0\<rparr>" "''doc''" "''b''"]
    by simp
qed

section \<open>Outline\<close>

text \<open>
  Claim C4, as the code has it. The outline has one top-level entry per Assignment token
  without scope, in sequence order; the entry's kind is Object when the token opens a
  lambda and Variable otherwise; its children are the Assignment tokens whose scope is
  the entry token's lambda reference, each with the token's range and image, of kind
  Array when the identifier kind is Argument and Variable otherwise.
\<close>

theorem onDocumentSymbol_outline:
  "map ds_kind (onDocumentSymbol h tokens) =
     map (\<lambda>t. if lambda (h t) = None then SymbolKind.Variable else SymbolKind.Object)
       (filter (\<lambda>t. kind (h t) = Some Assignment \<and> scope (h t) = None) tokens) \<and>
   map ds_range (onDocumentSymbol h tokens) =
     map (\<lambda>t. rangeFromToken (h t))
       (filter (\<lambda>t. kind (h t) = Some Assignment \<and> scope (h t) = None) tokens) \<and>
   map (\<lambda>e. map ds_range (ds_children e)) (onDocumentSymbol h tokens) =
     map (\<lambda>t. map (\<lambda>c. rangeFromToken (h c))
                 (filter (\<lambda>c. kind (h c) = Some Assignment \<and>
                     (\<exists>l. lambda (h t) = Some l \<and> scope (h c) = Some l)) tokens))
       (filter (\<lambda>t. kind (h t) = Some Assignment \<and> scope (h t) = None) tokens) \<and>
   map (\<lambda>e. map ds_name (ds_children e)) (onDocumentSymbol h tokens) =
     map (\<lambda>t. map (\<lambda>c. imageT (h c))
                 (filter (\<lambda>c. kind (h c) = Some Assignment \<and>
                     (\<exists>l. lambda (h t) = Some l \<and> scope (h c) = Some l)) tokens))
       (filter (\<lambda>t. kind (h t) = Some Assignment \<and> scope (h t) = None) tokens) \<and>
   map (\<lambda>e. map ds_kind (ds_children e)) (onDocumentSymbol h tokens) =
     map (\<lambda>t. map (\<lambda>c. if identifierKind (h c) = Some Argument then SymbolKind.Array
                        else SymbolKind.Variable)
                 (filter (\<lambda>c. kind (h c) = Some Assignment \<and>
                     (\<exists>l. lambda (h t) = Some l \<and> scope (h c) = Some l)) tokens))
       (filter (\<lambda>t. kind (h t) = Some Assignment \<and> scope (h t) = None) tokens)"
proof -
  have children: "filter (\<lambda>child. scope (h child) \<noteq> None \<and> scope (h child) = lambda (h t) \<and>
                     kind (h child) = Some Assignment) tokens =
        filter (\<lambda>c. kind (h c) = Some Assignment \<and>
                     (\<exists>l. lambda (h t) = Some l \<and> scope (h c) = Some l)) tokens" for t
    by (rule filter_cong) auto
  show ?thesis
    unfolding onDocumentSymbol_def children by (simp add: comp_def)
qed

text \<open>
  Claim C4 as stated does not hold: the entry of \<open>f\<close> in \<open>doc_f\<close>, a token that opens a
  lambda, has the symbol kind Object, which is not the symbol kind Function.
\<close>

theorem outline_lambda_entry_is_object:
  "map ds_kind (onDocumentSymbol doc_f doc_f_tokens) = [SymbolKind.Object] \<and>
   kind (doc_f 0) = Some Assignment \<and> scope (doc_f 0) = None \<and>
   lambda (doc_f 0) = Some 1 \<and>
   SymbolKind.Object \<noteq> SymbolKind.Function"
  by (simp add: onDocumentSymbol_def doc_f_def doc_f_tokens_def ident_def other_def blank_def)

end
